theory Spec2Isabelle
  imports Main
begin

section \<open>The reverse proxy of cmd/server/main.go\<close>

text \<open>
  The development follows \<^verbatim>\<open>src/cmd/server/main.go\<close>. Go strings are byte strings and are
  modelled as \<^typ>\<open>string\<close>; Go's \<^verbatim>\<open>int\<close> status codes are modelled as \<^typ>\<open>int\<close>; a Go
  \<^verbatim>\<open>map[string]string\<close> is a map \<open>string \<rightharpoonup> string\<close>. Pointers that the code mutates
  (\<^verbatim>\<open>r.URL\<close>, the response writer) are modelled by explicit state passing: a function
  returns the mutated value.
\<close>

subsection \<open>The response writer of net/http\<close>

text \<open>
  \<^verbatim>\<open>http.ResponseWriter\<close> is an interface of the platform. The model keeps what the
  interface documents: the header map (\<^verbatim>\<open>map[string][]string\<close>), the status code of the
  response (\<open>None\<close> until the header is written), and the bytes of the body. The first
  \<^verbatim>\<open>WriteHeader\<close> fixes the status, a later call is superfluous and ignored, and a
  \<^verbatim>\<open>Write\<close> before any \<^verbatim>\<open>WriteHeader\<close> implies \<^verbatim>\<open>WriteHeader(http.StatusOK)\<close>.
\<close>

record response =
  hdr :: "string \<rightharpoonup> string list"
  wroteHeader :: "int option"
  written :: string

definition StatusOK :: int where
  "StatusOK = 200"

definition StatusFound :: int where
  "StatusFound = 302"

definition new_response :: response where
  "new_response = \<lparr>hdr = Map.empty, wroteHeader = None, written = []\<rparr>"

definition Header_Set :: "string \<Rightarrow> string \<Rightarrow> response \<Rightarrow> response" where
  "Header_Set k v w = w\<lparr>hdr := (hdr w)(k \<mapsto> [v])\<rparr>"

definition Header_Get :: "response \<Rightarrow> string \<Rightarrow> string" where
  "Header_Get w k = (case hdr w k of Some (v # _) \<Rightarrow> v | _ \<Rightarrow> [])"

definition response_WriteHeader :: "int \<Rightarrow> response \<Rightarrow> response" where
  "response_WriteHeader code w =
     (case wroteHeader w of
        Some _ \<Rightarrow> w
      | None \<Rightarrow> w\<lparr>wroteHeader := Some code\<rparr>)"

definition response_Write :: "string \<Rightarrow> response \<Rightarrow> response" where
  "response_Write b w =
     (let w' = (case wroteHeader w of
                  None \<Rightarrow> response_WriteHeader StatusOK w
                | Some _ \<Rightarrow> w)
      in w'\<lparr>written := written w' @ b\<rparr>)"

text \<open>\<^verbatim>\<open>fmt.Fprintln(w, s)\<close> writes \<open>s\<close> followed by a newline with one \<^verbatim>\<open>Write\<close>.\<close>

definition Fprintln :: "string \<Rightarrow> response \<Rightarrow> response" where
  "Fprintln s w = response_Write (s @ [CHR 0x0A]) w"

subsection \<open>responseWriter: the wrapper that saves the status code\<close>

text \<open>
  \<^verbatim>\<open>type responseWriter struct { status int; http.ResponseWriter }\<close>. Only
  \<^verbatim>\<open>WriteHeader\<close> is overridden; \<^verbatim>\<open>Write\<close> and \<^verbatim>\<open>Header\<close> are promoted from the
  embedded writer and do not touch \<open>status\<close>.
\<close>

record responseWriter =
  status :: int
  ResponseWriter :: response

text \<open>\<^verbatim>\<open>&responseWriter{ResponseWriter: w}\<close>: the field \<open>status\<close> has Go's zero value.\<close>

definition new_responseWriter :: "response \<Rightarrow> responseWriter" where
  "new_responseWriter w = \<lparr>status = 0, ResponseWriter = w\<rparr>"

definition WriteHeader :: "int \<Rightarrow> responseWriter \<Rightarrow> responseWriter" where
  "WriteHeader st w =
     (let w1 = w\<lparr>status := st\<rparr>
      in w1\<lparr>ResponseWriter := response_WriteHeader st (ResponseWriter w1)\<rparr>)"

definition Write_promoted :: "string \<Rightarrow> responseWriter \<Rightarrow> responseWriter" where
  "Write_promoted b w = w\<lparr>ResponseWriter := response_Write b (ResponseWriter w)\<rparr>"

definition Header_Set_promoted :: "string \<Rightarrow> string \<Rightarrow> responseWriter \<Rightarrow> responseWriter" where
  "Header_Set_promoted k v w = w\<lparr>ResponseWriter := Header_Set k v (ResponseWriter w)\<rparr>"

text \<open>
  What a user of the wrapper (the forwarding primitive) may do with it: a sequence of
  method calls through the \<^verbatim>\<open>http.ResponseWriter\<close> interface.
\<close>

datatype rw_call =
  CallWriteHeader int
| CallWrite string
| CallHeaderSet string string

fun apply_call :: "responseWriter \<Rightarrow> rw_call \<Rightarrow> responseWriter" where
  "apply_call w (CallWriteHeader st) = WriteHeader st w"
| "apply_call w (CallWrite b) = Write_promoted b w"
| "apply_call w (CallHeaderSet k v) = Header_Set_promoted k v w"

definition apply_calls :: "responseWriter \<Rightarrow> rw_call list \<Rightarrow> responseWriter" where
  "apply_calls w cs = foldl apply_call w cs"

text \<open>The arguments of the \<^verbatim>\<open>WriteHeader\<close> calls of a sequence, in order.\<close>

fun WriteHeader_args :: "rw_call list \<Rightarrow> int list" where
  "WriteHeader_args [] = []"
| "WriteHeader_args (CallWriteHeader st # cs) = st # WriteHeader_args cs"
| "WriteHeader_args (_ # cs) = WriteHeader_args cs"

subsection \<open>Library functions of Go that the handlers call\<close>

text \<open>
  The handlers call \<^verbatim>\<open>net/url\<close>, \<^verbatim>\<open>html\<close>, \<^verbatim>\<open>fmt\<close> and \<^verbatim>\<open>net/http\<close>. These
  packages are not part of the repository; the definitions of this subsection follow
  the behaviour of Go's standard library so that the handlers can be evaluated on
  concrete requests. The theorems about the handlers do not unfold them.
\<close>

text \<open>
  \<^verbatim>\<open>url.URL\<close>. The field \<^verbatim>\<open>Host\<close> is named \<open>URLHost\<close> here, since \<^verbatim>\<open>http.Request\<close>
  has a field \<^verbatim>\<open>Host\<close> of its own. \<open>User\<close> holds the rendered user information
  (\<^verbatim>\<open>Userinfo.String()\<close>), \<open>None\<close> for a nil pointer.
\<close>

record url =
  Scheme :: string
  Opaque :: string
  User :: "string option"
  URLHost :: string
  Path :: string
  RawPath :: string
  OmitHost :: bool
  ForceQuery :: bool
  RawQuery :: string
  Fragment :: string
  RawFragment :: string

datatype encoding =
  encodePath
| encodePathSegment
| encodeHost
| encodeZone
| encodeUserPassword
| encodeQueryComponent
| encodeFragment

definition alnum :: "char \<Rightarrow> bool" where
  "alnum c =
     (let n = (of_char c :: nat)
      in (97 \<le> n \<and> n \<le> 122) \<or> (65 \<le> n \<and> n \<le> 90) \<or> (48 \<le> n \<and> n \<le> 57))"

definition host_allowed :: string where
  "host_allowed = ''!$&'' @ [CHR 0x27] @ ''()*+,;=:[]<>'' @ [CHR 0x22]"

definition shouldEscape :: "char \<Rightarrow> encoding \<Rightarrow> bool" where
  "shouldEscape c mode =
     (if alnum c then False
      else if (mode = encodeHost \<or> mode = encodeZone) \<and> c \<in> set host_allowed then False
      else if c \<in> set ''-_.~'' then False
      else if c \<in> set ''$&+,/:;=?@'' \<and> mode = encodePath then c = CHR ''?''
      else if c \<in> set ''$&+,/:;=?@'' \<and> mode = encodePathSegment then c \<in> set ''/;,?''
      else if c \<in> set ''$&+,/:;=?@'' \<and> mode = encodeUserPassword then c \<in> set ''@/?:''
      else if c \<in> set ''$&+,/:;=?@'' \<and> mode = encodeQueryComponent then True
      else if c \<in> set ''$&+,/:;=?@'' \<and> mode = encodeFragment then False
      else if mode = encodeFragment \<and> c \<in> set ''!()*'' then False
      else True)"

definition upperhex :: string where
  "upperhex = ''0123456789ABCDEF''"

definition lowerhex :: string where
  "lowerhex = ''0123456789abcdef''"

definition escape_byte :: "char \<Rightarrow> encoding \<Rightarrow> string" where
  "escape_byte c mode =
     (if shouldEscape c mode then
        (if c = CHR '' '' \<and> mode = encodeQueryComponent then ''+''
         else [CHR ''%'', upperhex ! ((of_char c :: nat) div 16), upperhex ! ((of_char c :: nat) mod 16)])
      else [c])"

definition escape :: "string \<Rightarrow> encoding \<Rightarrow> string" where
  "escape s mode = concat (map (\<lambda>c. escape_byte c mode) s)"

definition ishex :: "char \<Rightarrow> bool" where
  "ishex c =
     (let n = (of_char c :: nat)
      in (48 \<le> n \<and> n \<le> 57) \<or> (97 \<le> n \<and> n \<le> 102) \<or> (65 \<le> n \<and> n \<le> 70))"

definition unhex :: "char \<Rightarrow> nat" where
  "unhex c =
     (let n = (of_char c :: nat)
      in if 48 \<le> n \<and> n \<le> 57 then n - 48
         else if 97 \<le> n \<and> n \<le> 102 then n - 97 + 10
         else if 65 \<le> n \<and> n \<le> 70 then n - 65 + 10
         else 0)"

text \<open>
  \<^verbatim>\<open>unescape(s, mode)\<close> as called with \<^verbatim>\<open>encodePath\<close> or \<^verbatim>\<open>encodeFragment\<close>: the
  checks of the host, zone and query-component modes do not apply. \<open>None\<close> is the
  \<^verbatim>\<open>EscapeError\<close> of a malformed percent escape.
\<close>

fun unescape :: "string \<Rightarrow> string option" where
  "unescape [] = Some []"
| "unescape (c # cs) =
     (if c = CHR ''%'' then
        (case cs of
           a # b # rest \<Rightarrow>
             (if ishex a \<and> ishex b
              then map_option ((#) (char_of (unhex a * 16 + unhex b))) (unescape rest)
              else None)
         | _ \<Rightarrow> None)
      else map_option ((#) c) (unescape cs))"

definition validEncoded :: "string \<Rightarrow> encoding \<Rightarrow> bool" where
  "validEncoded s mode =
     list_all (\<lambda>c. c \<in> set (''!$&'' @ [CHR 0x27] @ ''()*+,;=:@[]%'') \<or> \<not> shouldEscape c mode) s"

definition EscapedPath :: "url \<Rightarrow> string" where
  "EscapedPath u =
     (if RawPath u \<noteq> [] \<and> validEncoded (RawPath u) encodePath
         \<and> unescape (RawPath u) = Some (Path u)
      then RawPath u
      else if Path u = ''*'' then ''*''
      else escape (Path u) encodePath)"

definition EscapedFragment :: "url \<Rightarrow> string" where
  "EscapedFragment u =
     (if RawFragment u \<noteq> [] \<and> validEncoded (RawFragment u) encodeFragment
         \<and> unescape (RawFragment u) = Some (Fragment u)
      then RawFragment u
      else escape (Fragment u) encodeFragment)"

text \<open>\<^verbatim>\<open>(*URL).String()\<close>: the buffer is built in the order of the Go function.\<close>

definition url_String :: "url \<Rightarrow> string" where
  "url_String u =
     (let buf0 = (if Scheme u \<noteq> [] then Scheme u @ '':'' else []);
          buf1 =
            (if Opaque u \<noteq> [] then buf0 @ Opaque u
             else
               (let bufa =
                      (if Scheme u \<noteq> [] \<or> URLHost u \<noteq> [] \<or> User u \<noteq> None then
                         (if OmitHost u \<and> URLHost u = [] \<and> User u = None then buf0
                          else buf0
                            @ (if URLHost u \<noteq> [] \<or> Path u \<noteq> [] \<or> User u \<noteq> None then ''//'' else [])
                            @ (case User u of Some ui \<Rightarrow> ui @ ''@'' | None \<Rightarrow> [])
                            @ (if URLHost u \<noteq> [] then escape (URLHost u) encodeHost else []))
                       else buf0);
                    path = EscapedPath u;
                    bufb =
                      (if (case path of [] \<Rightarrow> False | c # _ \<Rightarrow> c \<noteq> CHR ''/'') \<and> URLHost u \<noteq> []
                       then bufa @ ''/'' else bufa);
                    bufc =
                      (if bufb = [] \<and> CHR '':'' \<in> set (takeWhile (\<lambda>c. c \<noteq> CHR ''/'') path)
                       then bufb @ ''./'' else bufb)
                in bufc @ path));
          buf2 = (if ForceQuery u \<or> RawQuery u \<noteq> [] then buf1 @ ''?'' @ RawQuery u else buf1)
      in if Fragment u \<noteq> [] then buf2 @ ''#'' @ EscapedFragment u else buf2)"

text \<open>\<^verbatim>\<open>html.EscapeString\<close> replaces the five characters \<^verbatim>\<open>& ' < > "\<close>.\<close>

definition htmlEscape_byte :: "char \<Rightarrow> string" where
  "htmlEscape_byte c =
     (if c = CHR ''&'' then ''&amp;''
      else if c = CHR 0x27 then ''&#39;''
      else if c = CHR ''<'' then ''&lt;''
      else if c = CHR ''>'' then ''&gt;''
      else if c = CHR 0x22 then ''&#34;''
      else [c])"

definition html_EscapeString :: "string \<Rightarrow> string" where
  "html_EscapeString s = concat (map htmlEscape_byte s)"

text \<open>\<^verbatim>\<open>http.StatusText\<close>: the reason phrase of a status code, empty when unknown.\<close>

definition StatusText :: "int \<Rightarrow> string" where
  "StatusText code =
     (case map_of
        [(100, ''Continue''), (101, ''Switching Protocols''), (102, ''Processing''),
         (103, ''Early Hints''),
         (200, ''OK''), (201, ''Created''), (202, ''Accepted''),
         (203, ''Non-Authoritative Information''), (204, ''No Content''),
         (205, ''Reset Content''), (206, ''Partial Content''), (207, ''Multi-Status''),
         (208, ''Already Reported''), (226, ''IM Used''),
         (300, ''Multiple Choices''), (301, ''Moved Permanently''), (302, ''Found''),
         (303, ''See Other''), (304, ''Not Modified''), (305, ''Use Proxy''),
         (307, ''Temporary Redirect''), (308, ''Permanent Redirect''),
         (400, ''Bad Request''), (401, ''Unauthorized''), (402, ''Payment Required''),
         (403, ''Forbidden''), (404, ''Not Found''), (405, ''Method Not Allowed''),
         (406, ''Not Acceptable''), (407, ''Proxy Authentication Required''),
         (408, ''Request Timeout''), (409, ''Conflict''), (410, ''Gone''),
         (411, ''Length Required''), (412, ''Precondition Failed''),
         (413, ''Request Entity Too Large''), (414, ''Request URI Too Long''),
         (415, ''Unsupported Media Type''), (416, ''Requested Range Not Satisfiable''),
         (417, ''Expectation Failed''), (418, ''I'' @ [CHR 0x27] @ ''m a teapot''),
         (421, ''Misdirected Request''), (422, ''Unprocessable Entity''), (423, ''Locked''),
         (424, ''Failed Dependency''), (425, ''Too Early''), (426, ''Upgrade Required''),
         (428, ''Precondition Required''), (429, ''Too Many Requests''),
         (431, ''Request Header Fields Too Large''),
         (451, ''Unavailable For Legal Reasons''),
         (500, ''Internal Server Error''), (501, ''Not Implemented''), (502, ''Bad Gateway''),
         (503, ''Service Unavailable''), (504, ''Gateway Timeout''),
         (505, ''HTTP Version Not Supported''), (506, ''Variant Also Negotiates''),
         (507, ''Insufficient Storage''), (508, ''Loop Detected''), (510, ''Not Extended''),
         (511, ''Network Authentication Required'')] code
      of Some t \<Rightarrow> t | None \<Rightarrow> [])"

text \<open>The verb \<^verbatim>\<open>%d\<close> of \<^verbatim>\<open>fmt\<close>: an integer in decimal, with a minus sign when negative.\<close>

function digits :: "nat \<Rightarrow> string" where
  "digits n =
     (if n < 10 then [char_of (48 + n)]
      else digits (n div 10) @ [char_of (48 + n mod 10)])"
  by pat_completeness auto
termination
  by (relation "measure id") auto

definition fmt_d :: "int \<Rightarrow> string" where
  "fmt_d i = (if i < 0 then ''-'' @ digits (nat (- i)) else digits (nat i))"

text \<open>
  \<^verbatim>\<open>hexEscapeNonASCII\<close> of \<^verbatim>\<open>net/http\<close>: every byte from 0x80 on becomes a percent
  sign and its two hexadecimal digits in lower case.
\<close>

definition hexEscapeNonASCII :: "string \<Rightarrow> string" where
  "hexEscapeNonASCII s =
     concat (map (\<lambda>c. if (of_char c :: nat) \<ge> 128
                       then [CHR ''%'', lowerhex ! ((of_char c :: nat) div 16),
                             lowerhex ! ((of_char c :: nat) mod 16)]
                       else [c]) s)"

subsection \<open>Requests\<close>

text \<open>\<^verbatim>\<open>http.Request\<close>: the fields the handlers read or write.\<close>

record request =
  Method :: string
  Host :: string
  URL :: url

text \<open>
  \<^verbatim>\<open>http.Redirect(w, r, url, code)\<close> for a \<open>url\<close> that begins with a scheme, as the one
  that \<^verbatim>\<open>serveToTLS\<close> passes does: parsing it fails or yields a non-empty scheme, and
  the branch that makes a relative \<open>url\<close> absolute is skipped.
\<close>

definition http_Redirect :: "response \<Rightarrow> request \<Rightarrow> string \<Rightarrow> int \<Rightarrow> response" where
  "http_Redirect w r urlStr code =
     (let hadCT = (hdr w ''Content-Type'' \<noteq> None);
          w1 = Header_Set ''Location'' (hexEscapeNonASCII urlStr) w;
          w2 = (if \<not> hadCT \<and> (Method r = ''GET'' \<or> Method r = ''HEAD'')
                then Header_Set ''Content-Type'' ''text/html; charset=utf-8'' w1 else w1);
          w3 = response_WriteHeader code w2
      in if \<not> hadCT \<and> Method r = ''GET''
         then Fprintln (''<a href='' @ [CHR 0x22] @ html_EscapeString urlStr @ [CHR 0x22] @ ''>''
                          @ StatusText code @ ''</a>.'' @ [CHR 0x0A]) w3
         else w3)"

subsection \<open>redirectByHost\<close>

text \<open>
  The result is the returned \<^verbatim>\<open>bool\<close>, the response writer after the call and the
  request after the call: \<^verbatim>\<open>r.URL\<close> is a pointer and \<^verbatim>\<open>r.URL.Host = newHost\<close> writes
  through it.
\<close>

definition redirectByHost ::
  "(string \<rightharpoonup> string) \<Rightarrow> response \<Rightarrow> request \<Rightarrow> bool \<times> response \<times> request" where
  "redirectByHost hostMap w r =
     (case hostMap (Host r) of
        None \<Rightarrow> (False, w, r)
      | Some newHost \<Rightarrow>
          (let r1 = r\<lparr>URL := (URL r)\<lparr>URLHost := newHost\<rparr>\<rparr>;
               urlStr = url_String (URL r1);
               w1 = Header_Set ''Location'' urlStr w;
               code = StatusFound;
               w2 = response_WriteHeader code w1;
               w3 = (if Method r1 = ''GET''
                     then Fprintln (''<a href='' @ [CHR 0x22] @ html_EscapeString urlStr
                                      @ [CHR 0x22] @ ''>'' @ StatusText code @ ''</a>.''
                                      @ [CHR 0x0A]) w2
                     else w2)
           in (True, w3, r1)))"

subsection \<open>reverseProxy and its handler\<close>

text \<open>
  \<^verbatim>\<open>httputil.ReverseProxy\<close> is the forwarding primitive of the platform. It hands a
  clone of the incoming request to its \<open>Director\<close>, sends the rewritten clone to the
  backend and answers through the response writer it was given. What the backend's
  answer makes it call on the writer is not determined by this program: it is the
  parameter \<open>transport\<close>, any function from the outgoing request to a sequence of calls.
\<close>

record ReverseProxy =
  Director :: "request \<Rightarrow> request"

type_synonym transport = "request \<Rightarrow> rw_call list"

definition ReverseProxy_ServeHTTP ::
  "transport \<Rightarrow> ReverseProxy \<Rightarrow> responseWriter \<Rightarrow> request \<Rightarrow> responseWriter \<times> request" where
  "ReverseProxy_ServeHTTP T p rw req =
     (let outreq = Director p req
      in (apply_calls rw (T outreq), outreq))"

record reverseProxy =
  redirects :: "string \<rightharpoonup> string"
  backends :: "string \<rightharpoonup> string"
  proxy :: ReverseProxy

text \<open>
  The director of \<^verbatim>\<open>newReverseProxy\<close>. Reading a Go map at a missing key gives the
  zero value, the empty string.
\<close>

definition director :: "(string \<rightharpoonup> string) \<Rightarrow> request \<Rightarrow> request" where
  "director bks r =
     (let r1 = r\<lparr>URL := (URL r)\<lparr>Scheme := ''http''\<rparr>\<rparr>
      in r1\<lparr>URL := (URL r1)\<lparr>URLHost := (case bks (Host r1) of Some a \<Rightarrow> a | None \<Rightarrow> [])\<rparr>\<rparr>)"

definition newReverseProxy :: "(string \<rightharpoonup> string) \<Rightarrow> (string \<rightharpoonup> string) \<Rightarrow> reverseProxy" where
  "newReverseProxy rds bks =
     \<lparr>redirects = rds, backends = bks, proxy = \<lparr>Director = director bks\<rparr>\<rparr>"

text \<open>
  What one call of \<^verbatim>\<open>ServeHTTP\<close> leaves behind: the handler itself (the receiver is a
  pointer), the response writer, the request, whether \<^verbatim>\<open>redirectByHost\<close> returned true,
  the requests handed to the backend, and the lines given to \<^verbatim>\<open>log.Printf\<close>.
\<close>

record outcome =
  rp_after :: reverseProxy
  out_w :: response
  out_r :: request
  redirected :: bool
  forwarded :: "request list"
  logged :: "string list"

definition ServeHTTP :: "transport \<Rightarrow> reverseProxy \<Rightarrow> response \<Rightarrow> request \<Rightarrow> outcome" where
  "ServeHTTP T rp w r =
     (case redirectByHost (redirects rp) w r of
        (True, w', r') \<Rightarrow>
          \<lparr>rp_after = rp, out_w = w', out_r = r', redirected = True,
           forwarded = [], logged = []\<rparr>
      | (False, w', r') \<Rightarrow>
          (let host = Host r'
           in case backends rp host of
                Some _ \<Rightarrow>
                  (let respW = new_responseWriter w';
                       (respW', outreq) = ReverseProxy_ServeHTTP T (proxy rp) respW r';
                       urlStr = Host r' @ EscapedPath (URL r') @ ''?'' @ RawQuery (URL r')
                   in \<lparr>rp_after = rp, out_w = ResponseWriter respW', out_r = r',
                       redirected = False, forwarded = [outreq],
                       logged = (if status respW' \<noteq> 200
                                 then [Method r' @ '' '' @ urlStr @ '' '' @ fmt_d (status respW')]
                                 else [])\<rparr>)
              | None \<Rightarrow>
                  \<lparr>rp_after = rp, out_w = response_Write (''unknown host: '' @ host) w',
                   out_r = r', redirected = False, forwarded = [], logged = []\<rparr>))"

text \<open>
  The status that the wrapper of one proxied request holds when
  \<^verbatim>\<open>rp.proxy.ServeHTTP(respW, r)\<close> has returned.
\<close>

definition captured_status :: "transport \<Rightarrow> reverseProxy \<Rightarrow> response \<Rightarrow> request \<Rightarrow> int" where
  "captured_status T rp w r =
     status (fst (ReverseProxy_ServeHTTP T (proxy rp) (new_responseWriter w) r))"

text \<open>The server calls the one handler for each request in turn.\<close>

fun serve :: "reverseProxy \<Rightarrow> (transport \<times> response \<times> request) list \<Rightarrow> outcome list" where
  "serve rp [] = []"
| "serve rp ((T, w, r) # rest) =
     (let out = ServeHTTP T rp w r in out # serve (rp_after out) rest)"

subsection \<open>The handler of serveToTLS\<close>

definition serveToTLS_handler :: "response \<Rightarrow> request \<Rightarrow> response \<times> request" where
  "serveToTLS_handler w r =
     (let r1 = r\<lparr>URL := (URL r)\<lparr>Scheme := ''https''\<rparr>\<rparr>;
          r2 = r1\<lparr>URL := (URL r1)\<lparr>URLHost := Host r1\<rparr>\<rparr>;
          urlStr = url_String (URL r2)
      in (http_Redirect w r2 urlStr StatusFound, r2))"

subsection \<open>The configuration of mainWithErr\<close>

definition main_redirects :: "string \<rightharpoonup> string" where
  "main_redirects = map_of [(''my.domain'', ''www.my.domain'')]"

definition main_backends :: "string \<rightharpoonup> string" where
  "main_backends =
     map_of [(''www.my.domain'', ''localhost:12345''), (''xyz.my.domain'', ''localhost:22345'')]"

subsection \<open>The host router of the specification\<close>

text \<open>
  The specification describes the dispatch as a function \<open>route\<close> from a host to one of
  three dispositions. The program has no such function: \<open>spec_route\<close> is written from
  the specification's words, and \<open>disposition_of\<close> reads the disposition off what
  \<^verbatim>\<open>ServeHTTP\<close> did.
\<close>

datatype disposition = Redirect string | Proxy string | Unknown

definition spec_route :: "(string \<rightharpoonup> string) \<Rightarrow> (string \<rightharpoonup> string) \<Rightarrow> string \<Rightarrow> disposition" where
  "spec_route rds bks host =
     (case rds host of
        Some target \<Rightarrow> Redirect target
      | None \<Rightarrow> (case bks host of Some addr \<Rightarrow> Proxy addr | None \<Rightarrow> Unknown))"

definition disposition_of :: "outcome \<Rightarrow> disposition" where
  "disposition_of out =
     (if redirected out then Redirect (URLHost (URL (out_r out)))
      else case forwarded out of
             q # _ \<Rightarrow> Proxy (URLHost (URL q))
           | [] \<Rightarrow> Unknown)"

text \<open>A request as the server builds it from a request line and a Host header.\<close>

definition mk_url :: "string \<Rightarrow> string \<Rightarrow> url" where
  "mk_url p q =
     \<lparr>Scheme = [], Opaque = [], User = None, URLHost = [], Path = p, RawPath = [],
      OmitHost = False, ForceQuery = False, RawQuery = q, Fragment = [], RawFragment = []\<rparr>"

definition mk_request :: "string \<Rightarrow> string \<Rightarrow> string \<Rightarrow> string \<Rightarrow> request" where
  "mk_request m h p q = \<lparr>Method = m, Host = h, URL = mk_url p q\<rparr>"

section \<open>Properties\<close>

subsection \<open>The captured status\<close>

lemma status_WriteHeader: "status (WriteHeader st w) = st"
  by (simp add: WriteHeader_def Let_def)

lemma status_Write_promoted: "status (Write_promoted b w) = status w"
  by (simp add: Write_promoted_def)

lemma status_Header_Set_promoted: "status (Header_Set_promoted k v w) = status w"
  by (simp add: Header_Set_promoted_def)

lemma status_foldl_apply_call:
  "status (foldl apply_call w cs) =
     (if WriteHeader_args cs = [] then status w else last (WriteHeader_args cs))"
proof (induction cs arbitrary: w)
  case Nil
  show ?case by simp
next
  case (Cons c cs)
  show ?case
    by (cases c)
      (simp_all add: Cons.IH status_WriteHeader status_Write_promoted status_Header_Set_promoted)
qed

lemma captured_status_unfold:
  "captured_status T rp w r =
     status (apply_calls (new_responseWriter w) (T (Director (proxy rp) r)))"
  by (simp add: captured_status_def ReverseProxy_ServeHTTP_def Let_def)

text \<open>
  C2, as stated: when \<^verbatim>\<open>WriteHeader\<close> is never called on the wrapper, the status read
  after the proxy call is 200. It is not: a forwarder that only writes a body leaves the
  field at its zero value, while the underlying writer sends 200.
\<close>

theorem captured_status_default_counterexample:
  "WriteHeader_args [CallWrite ''ok''] = []
   \<and> captured_status (\<lambda>_. [CallWrite ''ok'']) (newReverseProxy main_redirects main_backends)
       new_response (mk_request ''GET'' ''www.my.domain'' ''/foo'' ''bar=1'') \<noteq> 200
   \<and> wroteHeader (out_w (ServeHTTP (\<lambda>_. [CallWrite ''ok''])
       (newReverseProxy main_redirects main_backends)
       new_response (mk_request ''GET'' ''www.my.domain'' ''/foo'' ''bar=1''))) = Some 200"
  by (simp add: captured_status_unfold apply_calls_def new_responseWriter_def
      Write_promoted_def ServeHTTP_def redirectByHost_def main_redirects_def main_backends_def
      mk_request_def newReverseProxy_def ReverseProxy_ServeHTTP_def Let_def new_response_def
      response_Write_def response_WriteHeader_def StatusOK_def)

text \<open>
  C2, amended: when \<^verbatim>\<open>WriteHeader\<close> is never called on the wrapper, the status read
  after the proxy call is 0, the zero value of the field; the wrapper has no default.
\<close>

theorem captured_status_zero_without_WriteHeader:
  assumes "WriteHeader_args (T (Director (proxy rp) r)) = []"
  shows "captured_status T rp w r = 0"
  using assms
  by (simp add: captured_status_unfold apply_calls_def status_foldl_apply_call
      new_responseWriter_def)

theorem captured_status_zero_without_WriteHeader_witness:
  "WriteHeader_args ((\<lambda>_. [CallWrite ''ok'']) (Director (proxy (newReverseProxy main_redirects main_backends))
       (mk_request ''GET'' ''www.my.domain'' ''/foo'' ''bar=1''))) = []
   \<and> captured_status (\<lambda>_. [CallWrite ''ok'']) (newReverseProxy main_redirects main_backends)
       new_response (mk_request ''GET'' ''www.my.domain'' ''/foo'' ''bar=1'') = 0"
proof -
  have h: "WriteHeader_args ((\<lambda>_. [CallWrite ''ok''])
      (Director (proxy (newReverseProxy main_redirects main_backends))
        (mk_request ''GET'' ''www.my.domain'' ''/foo'' ''bar=1''))) = []"
    by simp
  from captured_status_zero_without_WriteHeader [OF h] h show ?thesis by simp 
qed

text \<open>
  C7, as stated: the status read after the proxy call is the argument of the first
  \<^verbatim>\<open>WriteHeader\<close> call. It is not: every call overwrites the field.
\<close>

theorem captured_status_first_counterexample:
  "hd (WriteHeader_args [CallWriteHeader 500, CallWriteHeader 200]) = 500
   \<and> captured_status (\<lambda>_. [CallWriteHeader 500, CallWriteHeader 200])
       (newReverseProxy main_redirects main_backends)
       new_response (mk_request ''GET'' ''www.my.domain'' ''/foo'' ''bar=1'') = 200"
  by (simp add: captured_status_unfold apply_calls_def WriteHeader_def Let_def)

text \<open>
  C7, amended: for every sequence of calls with at least one \<^verbatim>\<open>WriteHeader\<close>, the
  status read after the proxy call is the argument of the last \<^verbatim>\<open>WriteHeader\<close> call.
\<close>

theorem captured_status_last_WriteHeader:
  assumes "WriteHeader_args (T (Director (proxy rp) r)) \<noteq> []"
  shows "captured_status T rp w r = last (WriteHeader_args (T (Director (proxy rp) r)))"
  using assms
  by (simp add: captured_status_unfold apply_calls_def status_foldl_apply_call)

theorem captured_status_last_WriteHeader_witness:
  "WriteHeader_args ((\<lambda>_. [CallWriteHeader 500, CallWrite ''no'', CallWriteHeader 200])
       (Director (proxy (newReverseProxy main_redirects main_backends))
         (mk_request ''GET'' ''www.my.domain'' ''/foo'' ''bar=1''))) \<noteq> []
   \<and> captured_status (\<lambda>_. [CallWriteHeader 500, CallWrite ''no'', CallWriteHeader 200])
       (newReverseProxy main_redirects main_backends)
       new_response (mk_request ''GET'' ''www.my.domain'' ''/foo'' ''bar=1'') = 200"
proof -
  have h: "WriteHeader_args ((\<lambda>_. [CallWriteHeader 500, CallWrite ''no'', CallWriteHeader 200])
       (Director (proxy (newReverseProxy main_redirects main_backends))
         (mk_request ''GET'' ''www.my.domain'' ''/foo'' ''bar=1''))) \<noteq> []"
    by simp
  from captured_status_last_WriteHeader [OF h] h show ?thesis by simp
qed

subsection \<open>Redirect emission\<close>

lemma hdr_response_WriteHeader: "hdr (response_WriteHeader code w) = hdr w"
  by (simp add: response_WriteHeader_def split: option.splits)

lemma hdr_response_Write: "hdr (response_Write b w) = hdr w"
  by (simp add: response_Write_def Let_def hdr_response_WriteHeader split: option.splits)

lemma response_WriteHeader_fresh:
  "wroteHeader w = None \<Longrightarrow> wroteHeader (response_WriteHeader code w) = Some code"
  by (simp add: response_WriteHeader_def)

lemma written_response_WriteHeader: "written (response_WriteHeader code w) = written w"
  by (simp add: response_WriteHeader_def split: option.splits)

lemma response_Write_after_header:
  "wroteHeader w = Some code \<Longrightarrow>
     wroteHeader (response_Write b w) = Some code \<and> written (response_Write b w) = written w @ b"
  by (simp add: response_Write_def)

lemma response_Write_fresh:
  "wroteHeader w = None \<Longrightarrow>
     wroteHeader (response_Write b w) = Some 200 \<and> written (response_Write b w) = written w @ b"
  by (simp add: response_Write_def response_WriteHeader_def StatusOK_def)

lemma Header_Get_Set: "Header_Get (Header_Set k v w) k = v"
  by (simp add: Header_Get_def Header_Set_def)

lemma wroteHeader_Header_Set: "wroteHeader (Header_Set k v w) = wroteHeader w"
  by (simp add: Header_Set_def)

lemma written_Header_Set: "written (Header_Set k v w) = written w"
  by (simp add: Header_Set_def)

lemma Header_Get_cong: "hdr w = hdr w' \<Longrightarrow> Header_Get w k = Header_Get w' k"
  by (simp add: Header_Get_def)

lemma StatusText_Found: "StatusText StatusFound = ''Found''"
  by (simp add: StatusText_def StatusFound_def)

lemma redirectByHost_miss:
  "hostMap (Host r) = None \<Longrightarrow> redirectByHost hostMap w r = (False, w, r)"
  by (simp add: redirectByHost_def)

lemma redirectByHost_hit:
  assumes "hostMap (Host r) = Some t"
  shows "redirectByHost hostMap w r =
     (True,
      (if Method r = ''GET''
       then Fprintln (''<a href='' @ [CHR 0x22]
                        @ html_EscapeString (url_String ((URL r)\<lparr>URLHost := t\<rparr>))
                        @ [CHR 0x22] @ ''>'' @ StatusText StatusFound @ ''</a>.'' @ [CHR 0x0A])
              (response_WriteHeader StatusFound
                 (Header_Set ''Location'' (url_String ((URL r)\<lparr>URLHost := t\<rparr>)) w))
       else response_WriteHeader StatusFound
              (Header_Set ''Location'' (url_String ((URL r)\<lparr>URLHost := t\<rparr>)) w)),
      r\<lparr>URL := (URL r)\<lparr>URLHost := t\<rparr>\<rparr>)"
  using assms by (simp add: redirectByHost_def Let_def)

lemma redirectByHost_hit_Location:
  assumes "hostMap (Host r) = Some t"
  shows "Header_Get (fst (snd (redirectByHost hostMap w r))) ''Location''
           = url_String ((URL r)\<lparr>URLHost := t\<rparr>)"
proof -
  let ?loc = "url_String ((URL r)\<lparr>URLHost := t\<rparr>)"
  have "hdr (fst (snd (redirectByHost hostMap w r))) = hdr (Header_Set ''Location'' ?loc w)"
    by (simp add: redirectByHost_hit [where hostMap=hostMap and r=r and t=t and w=w, OF assms] Fprintln_def hdr_response_Write
        hdr_response_WriteHeader)
  then have "Header_Get (fst (snd (redirectByHost hostMap w r))) ''Location''
               = Header_Get (Header_Set ''Location'' ?loc w) ''Location''"
    by (rule Header_Get_cong)
  then show ?thesis by (simp add: Header_Get_Set)
qed

lemma redirectByHost_hit_status:
  assumes "hostMap (Host r) = Some t" and "wroteHeader w = None"
  shows "wroteHeader (fst (snd (redirectByHost hostMap w r))) = Some 302"
proof -
  let ?w2 = "response_WriteHeader StatusFound
               (Header_Set ''Location'' (url_String ((URL r)\<lparr>URLHost := t\<rparr>)) w)"
  have w2: "wroteHeader ?w2 = Some 302"
    using assms(2)
    by (simp add: response_WriteHeader_fresh wroteHeader_Header_Set StatusFound_def)
  show ?thesis
    using response_Write_after_header [OF w2]
    by (simp add: redirectByHost_hit [where hostMap=hostMap and r=r and t=t and w=w, OF assms(1)] Fprintln_def w2)
qed

lemma redirectByHost_hit_body:
  assumes "hostMap (Host r) = Some t" and "wroteHeader w = None"
  shows "written (fst (snd (redirectByHost hostMap w r))) =
           written w @
           (if Method r = ''GET''
            then ''<a href='' @ [CHR 0x22]
                   @ html_EscapeString (url_String ((URL r)\<lparr>URLHost := t\<rparr>))
                   @ [CHR 0x22] @ ''>Found</a>.'' @ [CHR 0x0A, CHR 0x0A]
            else [])"
proof -
  let ?w2 = "response_WriteHeader StatusFound
               (Header_Set ''Location'' (url_String ((URL r)\<lparr>URLHost := t\<rparr>)) w)"
  have w2: "wroteHeader ?w2 = Some 302"
    using assms(2)
    by (simp add: response_WriteHeader_fresh wroteHeader_Header_Set StatusFound_def)
  have wr: "written ?w2 = written w"
    by (simp add: written_response_WriteHeader written_Header_Set)
  show ?thesis
    using response_Write_after_header [OF w2]
    by (simp add: redirectByHost_hit [where hostMap=hostMap and r=r and t=t and w=w, OF assms(1)] Fprintln_def wr StatusText_Found)
qed

text \<open>
  C5: for a request whose host is a key of the redirect table, on a response whose header
  is not yet written, \<^verbatim>\<open>redirectByHost\<close> returns true, writes status 302 (whose text is
  \<open>Found\<close>) and sets \<open>Location\<close> to the constructed URL; exactly when the method is
  \<open>GET\<close> it writes the body \<^verbatim>\<open><a href="..">Found</a>.\<close> whose \<open>href\<close> is the HTML-escaped
  \<open>Location\<close> value, and for every other method (POST, HEAD) it writes no body.
\<close>

theorem redirect_emission:
  assumes "hostMap (Host r) = Some t" and "wroteHeader w = None"
  shows "fst (redirectByHost hostMap w r) = True
     \<and> wroteHeader (fst (snd (redirectByHost hostMap w r))) = Some 302
     \<and> StatusText 302 = ''Found''
     \<and> Header_Get (fst (snd (redirectByHost hostMap w r))) ''Location''
         = url_String ((URL r)\<lparr>URLHost := t\<rparr>)
     \<and> written (fst (snd (redirectByHost hostMap w r))) =
         written w @
         (if Method r = ''GET''
          then ''<a href='' @ [CHR 0x22]
                 @ html_EscapeString (url_String ((URL r)\<lparr>URLHost := t\<rparr>))
                 @ [CHR 0x22] @ ''>Found</a>.'' @ [CHR 0x0A, CHR 0x0A]
          else [])"
proof -
  have "fst (redirectByHost hostMap w r) = True"
    by (simp add: redirectByHost_hit [where hostMap=hostMap and r=r and t=t and w=w, OF assms(1)])
  moreover have "StatusText 302 = ''Found''"
    using StatusText_Found by (simp add: StatusFound_def)
  ultimately show ?thesis
    using redirectByHost_hit_status [where hostMap=hostMap and r=r and t=t and w=w, OF assms] redirectByHost_hit_Location [where hostMap=hostMap and r=r and t=t and w=w, OF assms(1)]
      redirectByHost_hit_body [where hostMap=hostMap and r=r and t=t and w=w, OF assms]
    by simp
qed

lemma Method_mk_request: "Method (mk_request m h p q) = m"
  by (simp add: mk_request_def)

lemma Host_mk_request: "Host (mk_request m h p q) = h"
  by (simp add: mk_request_def)

lemma URL_mk_request: "URL (mk_request m h p q) = mk_url p q"
  by (simp add: mk_request_def)

lemma main_redirects_my_domain: "main_redirects ''my.domain'' = Some ''www.my.domain''"
  by (simp add: main_redirects_def)

lemma url_String_redirect_example:
  "url_String ((mk_url ''/x'' ''a=1&b=<'')\<lparr>URLHost := ''www.my.domain''\<rparr>)
     = ''//www.my.domain/x?a=1&b=<''"
  by code_simp

lemma html_EscapeString_example:
  "html_EscapeString ''//www.my.domain/x?a=1&b=<'' = ''//www.my.domain/x?a=1&amp;b=&lt;''"
  by code_simp

theorem redirect_emission_witness:
  "main_redirects (Host (mk_request ''GET'' ''my.domain'' ''/x'' ''a=1&b=<'')) = Some ''www.my.domain''
   \<and> wroteHeader new_response = None
   \<and> fst (redirectByHost main_redirects new_response
             (mk_request ''GET'' ''my.domain'' ''/x'' ''a=1&b=<'')) = True
   \<and> wroteHeader (fst (snd (redirectByHost main_redirects new_response
             (mk_request ''GET'' ''my.domain'' ''/x'' ''a=1&b=<'')))) = Some 302
   \<and> Header_Get (fst (snd (redirectByHost main_redirects new_response
             (mk_request ''GET'' ''my.domain'' ''/x'' ''a=1&b=<'')))) ''Location''
         = ''//www.my.domain/x?a=1&b=<''
   \<and> written (fst (snd (redirectByHost main_redirects new_response
             (mk_request ''GET'' ''my.domain'' ''/x'' ''a=1&b=<''))))
         = ''<a href='' @ [CHR 0x22] @ ''//www.my.domain/x?a=1&amp;b=&lt;'' @ [CHR 0x22]
             @ ''>Found</a>.'' @ [CHR 0x0A, CHR 0x0A]
   \<and> written (fst (snd (redirectByHost main_redirects new_response
             (mk_request ''HEAD'' ''my.domain'' ''/x'' ''a=1&b=<'')))) = []"
proof -
  have fresh: "wroteHeader new_response = None"
    by (simp add: new_response_def)
  have empty: "written new_response = []"
    by (simp add: new_response_def)
  have get: "main_redirects (Host (mk_request ''GET'' ''my.domain'' ''/x'' ''a=1&b=<''))
               = Some ''www.my.domain''"
    by (simp add: Host_mk_request main_redirects_my_domain)
  have head: "main_redirects (Host (mk_request ''HEAD'' ''my.domain'' ''/x'' ''a=1&b=<''))
               = Some ''www.my.domain''"
    by (simp add: Host_mk_request main_redirects_my_domain)
  note a = redirect_emission [where hostMap = main_redirects and w = new_response
      and r = "mk_request ''GET'' ''my.domain'' ''/x'' ''a=1&b=<''" and t = "''www.my.domain''",
      OF get fresh]
  note b = redirect_emission [where hostMap = main_redirects and w = new_response
      and r = "mk_request ''HEAD'' ''my.domain'' ''/x'' ''a=1&b=<''" and t = "''www.my.domain''",
      OF head fresh]
  show ?thesis
    using a b get fresh
    by (simp add: empty Method_mk_request URL_mk_request url_String_redirect_example
        html_EscapeString_example)
qed

text \<open>
  C6, as stated: the target URL is built from a copy and the request's URL is unchanged
  after emission. It is not: \<^verbatim>\<open>r.URL.Host = newHost\<close> writes through the pointer
  \<^verbatim>\<open>r.URL\<close>, so the request's own URL has the new host afterwards.
\<close>

theorem request_url_changed_counterexample:
  "URL (snd (snd (redirectByHost main_redirects new_response
          (mk_request ''GET'' ''my.domain'' ''/x'' []))))
     \<noteq> URL (mk_request ''GET'' ''my.domain'' ''/x'' [])"
  by (simp add: redirectByHost_def main_redirects_def mk_request_def mk_url_def Let_def)

text \<open>
  C6, amended: redirect emission replaces the host of the request's own URL by the
  target, in place, and builds the target URL from it; scheme, path and query are
  preserved, and after emission the request's URL is the original one with its host
  replaced by the target.
\<close>

theorem request_url_host_replaced_in_place:
  assumes "hostMap (Host r) = Some t"
  shows "snd (snd (redirectByHost hostMap w r)) = r\<lparr>URL := (URL r)\<lparr>URLHost := t\<rparr>\<rparr>
     \<and> Header_Get (fst (snd (redirectByHost hostMap w r))) ''Location''
         = url_String ((URL r)\<lparr>URLHost := t\<rparr>)
     \<and> URLHost (URL (snd (snd (redirectByHost hostMap w r)))) = t
     \<and> Scheme (URL (snd (snd (redirectByHost hostMap w r)))) = Scheme (URL r)
     \<and> Path (URL (snd (snd (redirectByHost hostMap w r)))) = Path (URL r)
     \<and> RawPath (URL (snd (snd (redirectByHost hostMap w r)))) = RawPath (URL r)
     \<and> RawQuery (URL (snd (snd (redirectByHost hostMap w r)))) = RawQuery (URL r)"
  using redirectByHost_hit_Location [where hostMap=hostMap and r=r and t=t and w=w, OF assms]
  by (simp add: redirectByHost_hit [where hostMap=hostMap and r=r and t=t and w=w, OF assms])

theorem request_url_host_replaced_in_place_witness:
  "main_redirects (Host (mk_request ''GET'' ''my.domain'' ''/x'' ''a=1&b=<'')) = Some ''www.my.domain''
   \<and> URL (snd (snd (redirectByHost main_redirects new_response
        (mk_request ''GET'' ''my.domain'' ''/x'' ''a=1&b=<''))))
       = (mk_url ''/x'' ''a=1&b=<'')\<lparr>URLHost := ''www.my.domain''\<rparr>
   \<and> Header_Get (fst (snd (redirectByHost main_redirects new_response
        (mk_request ''GET'' ''my.domain'' ''/x'' ''a=1&b=<'')))) ''Location''
       = ''//www.my.domain/x?a=1&b=<''"
proof -
  have get: "main_redirects (Host (mk_request ''GET'' ''my.domain'' ''/x'' ''a=1&b=<''))
               = Some ''www.my.domain''"
    by (simp add: Host_mk_request main_redirects_my_domain)
  note a = request_url_host_replaced_in_place [where hostMap = main_redirects
      and w = new_response and r = "mk_request ''GET'' ''my.domain'' ''/x'' ''a=1&b=<''"
      and t = "''www.my.domain''", OF get]
  show ?thesis
    using a get by (simp add: URL_mk_request url_String_redirect_example)
qed

text \<open>
  C10: for a request whose host is not a key of the redirect table, \<^verbatim>\<open>redirectByHost\<close>
  returns false and leaves the response writer (header map, status, body) and the
  request (with its URL) exactly as they were.
\<close>

theorem redirectByHost_unknown_host_writes_nothing:
  assumes "hostMap (Host r) = None"
  shows "fst (redirectByHost hostMap w r) = False
     \<and> fst (snd (redirectByHost hostMap w r)) = w
     \<and> snd (snd (redirectByHost hostMap w r)) = r"
  using assms by (simp add: redirectByHost_miss)

theorem redirectByHost_unknown_host_writes_nothing_witness:
  "main_redirects (Host (mk_request ''GET'' ''www.my.domain'' ''/x'' [])) = None
   \<and> redirectByHost main_redirects new_response (mk_request ''GET'' ''www.my.domain'' ''/x'' [])
       = (False, new_response, mk_request ''GET'' ''www.my.domain'' ''/x'' [])"
proof -
  have miss: "main_redirects (Host (mk_request ''GET'' ''www.my.domain'' ''/x'' [])) = None"
    by (simp add: Host_mk_request main_redirects_def)
  note a = redirectByHost_unknown_host_writes_nothing [where hostMap = main_redirects
      and w = new_response and r = "mk_request ''GET'' ''www.my.domain'' ''/x'' []", OF miss]
  show ?thesis
    using a miss by (simp add: prod_eq_iff)
qed

subsection \<open>The handler ServeHTTP\<close>

lemma ServeHTTP_redirect:
  assumes "redirects rp (Host r) = Some t"
  shows "ServeHTTP T rp w r =
     \<lparr>rp_after = rp, out_w = fst (snd (redirectByHost (redirects rp) w r)),
      out_r = r\<lparr>URL := (URL r)\<lparr>URLHost := t\<rparr>\<rparr>, redirected = True,
      forwarded = [], logged = []\<rparr>"
  by (simp add: ServeHTTP_def
      redirectByHost_hit [where hostMap="redirects rp" and r=r and t=t and w=w, OF assms])

lemma ServeHTTP_proxy:
  assumes "redirects rp (Host r) = None" and "backends rp (Host r) = Some a"
  shows "ServeHTTP T rp w r =
     \<lparr>rp_after = rp,
      out_w = ResponseWriter (apply_calls (new_responseWriter w) (T (Director (proxy rp) r))),
      out_r = r, redirected = False, forwarded = [Director (proxy rp) r],
      logged = (if captured_status T rp w r \<noteq> 200
                then [Method r @ '' '' @ (Host r @ EscapedPath (URL r) @ ''?'' @ RawQuery (URL r))
                        @ '' '' @ fmt_d (captured_status T rp w r)]
                else [])\<rparr>"
  using assms
  by (simp add: ServeHTTP_def redirectByHost_miss captured_status_unfold
      ReverseProxy_ServeHTTP_def Let_def)

lemma ServeHTTP_unknown:
  assumes "redirects rp (Host r) = None" and "backends rp (Host r) = None"
  shows "ServeHTTP T rp w r =
     \<lparr>rp_after = rp, out_w = response_Write (''unknown host: '' @ Host r) w,
      out_r = r, redirected = False, forwarded = [], logged = []\<rparr>"
  using assms by (simp add: ServeHTTP_def redirectByHost_miss)

text \<open>
  C1: for every host that is a key of the redirect table, whatever the backend table
  holds, \<^verbatim>\<open>ServeHTTP\<close> answers with the redirect of \<^verbatim>\<open>redirectByHost\<close> to the mapped
  host (status 302 on a fresh writer, \<open>Location\<close> the constructed URL), hands no request
  to a backend and logs nothing.
\<close>

theorem redirect_has_priority:
  assumes "redirects rp (Host r) = Some t"
  shows "redirected (ServeHTTP T rp w r)
     \<and> disposition_of (ServeHTTP T rp w r) = Redirect t
     \<and> forwarded (ServeHTTP T rp w r) = []
     \<and> logged (ServeHTTP T rp w r) = []
     \<and> (out_w (ServeHTTP T rp w r), out_r (ServeHTTP T rp w r))
          = snd (redirectByHost (redirects rp) w r)
     \<and> Header_Get (out_w (ServeHTTP T rp w r)) ''Location''
          = url_String ((URL r)\<lparr>URLHost := t\<rparr>)
     \<and> (wroteHeader w = None \<longrightarrow> wroteHeader (out_w (ServeHTTP T rp w r)) = Some 302)"
proof -
  note hit = redirectByHost_hit [where hostMap="redirects rp" and r=r and t=t and w=w, OF assms]
  note out = ServeHTTP_redirect [where rp=rp and r=r and t=t and T=T and w=w, OF assms]
  have "snd (redirectByHost (redirects rp) w r)
          = (fst (snd (redirectByHost (redirects rp) w r)), r\<lparr>URL := (URL r)\<lparr>URLHost := t\<rparr>\<rparr>)"
    by (simp add: hit)
  moreover have "Header_Get (out_w (ServeHTTP T rp w r)) ''Location''
          = url_String ((URL r)\<lparr>URLHost := t\<rparr>)"
    using redirectByHost_hit_Location [where hostMap="redirects rp" and r=r and t=t and w=w,
        OF assms]
    by (simp add: out)
  moreover have "wroteHeader w = None \<longrightarrow> wroteHeader (out_w (ServeHTTP T rp w r)) = Some 302"
    using redirectByHost_hit_status [where hostMap="redirects rp" and r=r and t=t and w=w,
        OF assms]
    by (simp add: out)
  ultimately show ?thesis
    by (simp add: out disposition_of_def)
qed

theorem redirect_has_priority_witness:
  "redirects (newReverseProxy main_redirects (main_backends(''my.domain'' \<mapsto> ''localhost:9'')))
       (Host (mk_request ''GET'' ''my.domain'' ''/x'' ''a=1&b=<'')) = Some ''www.my.domain''
   \<and> backends (newReverseProxy main_redirects (main_backends(''my.domain'' \<mapsto> ''localhost:9'')))
       (Host (mk_request ''GET'' ''my.domain'' ''/x'' ''a=1&b=<'')) = Some ''localhost:9''
   \<and> disposition_of (ServeHTTP (\<lambda>_. [CallWriteHeader 200])
        (newReverseProxy main_redirects (main_backends(''my.domain'' \<mapsto> ''localhost:9'')))
        new_response (mk_request ''GET'' ''my.domain'' ''/x'' ''a=1&b=<'')) = Redirect ''www.my.domain''
   \<and> forwarded (ServeHTTP (\<lambda>_. [CallWriteHeader 200])
        (newReverseProxy main_redirects (main_backends(''my.domain'' \<mapsto> ''localhost:9'')))
        new_response (mk_request ''GET'' ''my.domain'' ''/x'' ''a=1&b=<'')) = []
   \<and> Header_Get (out_w (ServeHTTP (\<lambda>_. [CallWriteHeader 200])
        (newReverseProxy main_redirects (main_backends(''my.domain'' \<mapsto> ''localhost:9'')))
        new_response (mk_request ''GET'' ''my.domain'' ''/x'' ''a=1&b=<''))) ''Location''
        = ''//www.my.domain/x?a=1&b=<''
   \<and> wroteHeader (out_w (ServeHTTP (\<lambda>_. [CallWriteHeader 200])
        (newReverseProxy main_redirects (main_backends(''my.domain'' \<mapsto> ''localhost:9'')))
        new_response (mk_request ''GET'' ''my.domain'' ''/x'' ''a=1&b=<''))) = Some 302"
proof -
  have rd: "redirects (newReverseProxy main_redirects (main_backends(''my.domain'' \<mapsto> ''localhost:9'')))
       (Host (mk_request ''GET'' ''my.domain'' ''/x'' ''a=1&b=<'')) = Some ''www.my.domain''"
    by (simp add: newReverseProxy_def Host_mk_request main_redirects_my_domain)
  have bk: "backends (newReverseProxy main_redirects (main_backends(''my.domain'' \<mapsto> ''localhost:9'')))
       (Host (mk_request ''GET'' ''my.domain'' ''/x'' ''a=1&b=<'')) = Some ''localhost:9''"
    by (simp add: newReverseProxy_def Host_mk_request)
  have fresh: "wroteHeader new_response = None"
    by (simp add: new_response_def)
  note a = redirect_has_priority [where T = "\<lambda>_. [CallWriteHeader 200]" and w = new_response
      and rp = "newReverseProxy main_redirects (main_backends(''my.domain'' \<mapsto> ''localhost:9''))"
      and r = "mk_request ''GET'' ''my.domain'' ''/x'' ''a=1&b=<''" and t = "''www.my.domain''",
      OF rd]
  show ?thesis
    using a rd bk fresh by (simp add: URL_mk_request url_String_redirect_example)
qed

text \<open>
  C3: for a request dispatched to a backend (host not in the redirect table, host in
  the backend table), a log line is emitted if and only if the captured status is not
  200, and the line is \<^verbatim>\<open><METHOD> <host><escaped-path>?<raw-query> <status>\<close>.
\<close>

theorem proxied_request_log_line:
  assumes "redirects rp (Host r) = None" and "backends rp (Host r) = Some a"
  shows "logged (ServeHTTP T rp w r) =
       (if captured_status T rp w r \<noteq> 200
        then [Method r @ '' '' @ Host r @ EscapedPath (URL r) @ ''?'' @ RawQuery (URL r)
                @ '' '' @ fmt_d (captured_status T rp w r)]
        else [])
     \<and> (logged (ServeHTTP T rp w r) \<noteq> []) = (captured_status T rp w r \<noteq> 200)
     \<and> forwarded (ServeHTTP T rp w r) = [Director (proxy rp) r]"
  by (simp add: ServeHTTP_proxy [where rp=rp and r=r and a=a and T=T and w=w, OF assms])

lemma EscapedPath_example: "EscapedPath (mk_url ''/foo'' ''bar=1'') = ''/foo''"
  by code_simp

lemma RawQuery_mk_url: "RawQuery (mk_url p q) = q"
  by (simp add: mk_url_def)

lemma fmt_d_500: "fmt_d 500 = ''500''"
  by code_simp

lemma main_redirects_www: "main_redirects ''www.my.domain'' = None"
  by (simp add: main_redirects_def)

lemma main_backends_www: "main_backends ''www.my.domain'' = Some ''localhost:12345''"
  by (simp add: main_backends_def)

lemma captured_status_example_500:
  "captured_status (\<lambda>_. [CallWriteHeader 500, CallWrite ''boom''])
     (newReverseProxy main_redirects main_backends) new_response
     (mk_request ''GET'' ''www.my.domain'' ''/foo'' ''bar=1'') = 500"
  by (simp add: captured_status_unfold apply_calls_def status_WriteHeader status_Write_promoted)

lemma captured_status_example_200:
  "captured_status (\<lambda>_. [CallWriteHeader 200, CallWrite ''fine''])
     (newReverseProxy main_redirects main_backends) new_response
     (mk_request ''GET'' ''www.my.domain'' ''/foo'' ''bar=1'') = 200"
  by (simp add: captured_status_unfold apply_calls_def status_WriteHeader status_Write_promoted)

theorem proxied_request_log_line_witness:
  "redirects (newReverseProxy main_redirects main_backends)
       (Host (mk_request ''GET'' ''www.my.domain'' ''/foo'' ''bar=1'')) = None
   \<and> backends (newReverseProxy main_redirects main_backends)
       (Host (mk_request ''GET'' ''www.my.domain'' ''/foo'' ''bar=1'')) = Some ''localhost:12345''
   \<and> logged (ServeHTTP (\<lambda>_. [CallWriteHeader 500, CallWrite ''boom''])
        (newReverseProxy main_redirects main_backends) new_response
        (mk_request ''GET'' ''www.my.domain'' ''/foo'' ''bar=1''))
       = [''GET www.my.domain/foo?bar=1 500'']
   \<and> logged (ServeHTTP (\<lambda>_. [CallWriteHeader 200, CallWrite ''fine''])
        (newReverseProxy main_redirects main_backends) new_response
        (mk_request ''GET'' ''www.my.domain'' ''/foo'' ''bar=1'')) = []"
proof -
  have rd: "redirects (newReverseProxy main_redirects main_backends)
       (Host (mk_request ''GET'' ''www.my.domain'' ''/foo'' ''bar=1'')) = None"
    by (simp add: newReverseProxy_def Host_mk_request main_redirects_www)
  have bk: "backends (newReverseProxy main_redirects main_backends)
       (Host (mk_request ''GET'' ''www.my.domain'' ''/foo'' ''bar=1'')) = Some ''localhost:12345''"
    by (simp add: newReverseProxy_def Host_mk_request main_backends_www)
  note a = proxied_request_log_line [where T = "\<lambda>_. [CallWriteHeader 500, CallWrite ''boom'']"
      and w = new_response and rp = "newReverseProxy main_redirects main_backends"
      and r = "mk_request ''GET'' ''www.my.domain'' ''/foo'' ''bar=1''"
      and a = "''localhost:12345''", OF rd bk]
  note b = proxied_request_log_line [where T = "\<lambda>_. [CallWriteHeader 200, CallWrite ''fine'']"
      and w = new_response and rp = "newReverseProxy main_redirects main_backends"
      and r = "mk_request ''GET'' ''www.my.domain'' ''/foo'' ''bar=1''"
      and a = "''localhost:12345''", OF rd bk]
  show ?thesis
    using a b rd bk
    by (simp add: captured_status_example_500 captured_status_example_200 Method_mk_request
        Host_mk_request URL_mk_request EscapedPath_example RawQuery_mk_url fmt_d_500)
qed

text \<open>
  C4: for a request whose host is in neither table, on a response whose header is not
  yet written, the handler writes the body \<^verbatim>\<open>unknown host: <host>\<close> and the response
  carries status 200; nothing is forwarded or logged.
\<close>

theorem unknown_host_body_and_status:
  assumes "redirects rp (Host r) = None" and "backends rp (Host r) = None"
    and "wroteHeader w = None"
  shows "out_w (ServeHTTP T rp w r) = response_Write (''unknown host: '' @ Host r) w
     \<and> written (out_w (ServeHTTP T rp w r)) = written w @ ''unknown host: '' @ Host r
     \<and> wroteHeader (out_w (ServeHTTP T rp w r)) = Some 200
     \<and> disposition_of (ServeHTTP T rp w r) = Unknown
     \<and> forwarded (ServeHTTP T rp w r) = []
     \<and> logged (ServeHTTP T rp w r) = []"
  using response_Write_fresh [OF assms(3)]
  by (simp add: ServeHTTP_unknown [where rp=rp and r=r and T=T and w=w, OF assms(1,2)]
      disposition_of_def)

theorem unknown_host_body_and_status_witness:
  "redirects (newReverseProxy main_redirects main_backends)
       (Host (mk_request ''GET'' ''unknown.example'' ''/'' [])) = None
   \<and> backends (newReverseProxy main_redirects main_backends)
       (Host (mk_request ''GET'' ''unknown.example'' ''/'' [])) = None
   \<and> wroteHeader new_response = None
   \<and> written (out_w (ServeHTTP (\<lambda>_. [CallWriteHeader 500])
        (newReverseProxy main_redirects main_backends) new_response
        (mk_request ''GET'' ''unknown.example'' ''/'' []))) = ''unknown host: unknown.example''
   \<and> wroteHeader (out_w (ServeHTTP (\<lambda>_. [CallWriteHeader 500])
        (newReverseProxy main_redirects main_backends) new_response
        (mk_request ''GET'' ''unknown.example'' ''/'' []))) = Some 200"
proof -
  have rd: "redirects (newReverseProxy main_redirects main_backends)
       (Host (mk_request ''GET'' ''unknown.example'' ''/'' [])) = None"
    by (simp add: newReverseProxy_def Host_mk_request main_redirects_def)
  have bk: "backends (newReverseProxy main_redirects main_backends)
       (Host (mk_request ''GET'' ''unknown.example'' ''/'' [])) = None"
    by (simp add: newReverseProxy_def Host_mk_request main_backends_def)
  have fresh: "wroteHeader new_response = None"
    by (simp add: new_response_def)
  note a = unknown_host_body_and_status [where T = "\<lambda>_. [CallWriteHeader 500]"
      and w = new_response and rp = "newReverseProxy main_redirects main_backends"
      and r = "mk_request ''GET'' ''unknown.example'' ''/'' []", OF rd bk fresh]
  show ?thesis
    using a rd bk fresh
    by (simp add: Host_mk_request response_Write_def response_WriteHeader_def StatusOK_def
        new_response_def)
qed

lemma serve_map: "serve rp reqs = map (\<lambda>(T, w, r). ServeHTTP T rp w r) reqs"
proof (induction reqs)
  case Nil
  show ?case by simp
next
  case (Cons q reqs)
  obtain T w r where q: "q = (T, w, r)"
    by (cases q) auto
  have "rp_after (ServeHTTP T rp w r) = rp"
    by (simp add: ServeHTTP_def Let_def split: prod.splits option.splits bool.splits)
  then show ?case
    by (simp add: q Cons.IH Let_def)
qed

lemma Host_out_r_ServeHTTP: "Host (out_r (ServeHTTP T rp w r)) = Host r"
proof (cases "redirects rp (Host r)")
  case (Some t)
  then show ?thesis
    by (simp add: ServeHTTP_redirect [where rp=rp and r=r and t=t and T=T and w=w])
next
  case None
  show ?thesis
  proof (cases "backends rp (Host r)")
    case (Some a)
    with None show ?thesis
      by (simp add: ServeHTTP_proxy [where rp=rp and r=r and a=a and T=T and w=w])
  next
    case bnone: None
    with None show ?thesis
      by (simp add: ServeHTTP_unknown [where rp=rp and r=r and T=T and w=w])
  qed
qed

lemma rp_after_ServeHTTP: "rp_after (ServeHTTP T rp w r) = rp"
  by (simp add: ServeHTTP_def Let_def split: prod.splits option.splits bool.splits)

lemma URLHost_director:
  "URLHost (URL (director bks r)) = (case bks (Host r) of Some a \<Rightarrow> a | None \<Rightarrow> [])"
  by (simp add: director_def Let_def)

lemma disposition_ServeHTTP:
  "disposition_of (ServeHTTP T (newReverseProxy rds bks) w r) = spec_route rds bks (Host r)"
proof (cases "rds (Host r)")
  case (Some t)
  then have "redirects (newReverseProxy rds bks) (Host r) = Some t"
    by (simp add: newReverseProxy_def)
  from ServeHTTP_redirect [where rp="newReverseProxy rds bks" and r=r and t=t and T=T and w=w,
      OF this] Some
  show ?thesis
    by (simp add: disposition_of_def spec_route_def)
next
  case None
  then have rd: "redirects (newReverseProxy rds bks) (Host r) = None"
    by (simp add: newReverseProxy_def)
  show ?thesis
  proof (cases "bks (Host r)")
    case (Some a)
    then have bk: "backends (newReverseProxy rds bks) (Host r) = Some a"
      by (simp add: newReverseProxy_def)
    have "proxy (newReverseProxy rds bks) = \<lparr>Director = director bks\<rparr>"
      by (simp add: newReverseProxy_def)
    with ServeHTTP_proxy [where rp="newReverseProxy rds bks" and r=r and a=a and T=T and w=w,
        OF rd bk] None Some
    show ?thesis
      by (simp add: disposition_of_def spec_route_def URLHost_director)
  next
    case bnone: None
    then have bk: "backends (newReverseProxy rds bks) (Host r) = None"
      by (simp add: newReverseProxy_def)
    from ServeHTTP_unknown [where rp="newReverseProxy rds bks" and r=r and T=T and w=w,
        OF rd bk] None bnone
    show ?thesis
      by (simp add: disposition_of_def spec_route_def)
  qed
qed

text \<open>
  C9: the server hands every request to the one handler built by \<^verbatim>\<open>newReverseProxy\<close>.
  However many requests are served, with whatever methods, URLs and backend answers,
  the handler's tables stay as they were, the disposition of each request is the one the
  specification's \<open>route\<close> gives for its host on the original tables, and so two
  requests with the same host get the same disposition with the same target.
\<close>

theorem dispatch_repeatable:
  "(\<forall>out \<in> set (serve (newReverseProxy rds bks) reqs).
       redirects (rp_after out) = rds \<and> backends (rp_after out) = bks
       \<and> disposition_of out = spec_route rds bks (Host (out_r out)))
   \<and> map (\<lambda>out. Host (out_r out)) (serve (newReverseProxy rds bks) reqs)
       = map (\<lambda>(T, w, r). Host r) reqs
   \<and> (\<forall>o1 \<in> set (serve (newReverseProxy rds bks) reqs).
       \<forall>o2 \<in> set (serve (newReverseProxy rds bks) reqs).
         Host (out_r o1) = Host (out_r o2) \<longrightarrow> disposition_of o1 = disposition_of o2)
   \<and> (Host ra = Host rb \<longrightarrow>
        disposition_of (ServeHTTP Ta (newReverseProxy rds bks) wa ra)
          = disposition_of (ServeHTTP Tb (newReverseProxy rds bks) wb rb))"
proof -
  let ?rp = "newReverseProxy rds bks"
  have each: "\<forall>out \<in> set (serve ?rp reqs).
       redirects (rp_after out) = rds \<and> backends (rp_after out) = bks
       \<and> disposition_of out = spec_route rds bks (Host (out_r out))"
  proof
    fix out
    assume "out \<in> set (serve ?rp reqs)"
    then obtain T w r where out: "out = ServeHTTP T ?rp w r"
      by (auto simp: serve_map)
    have "rp_after out = ?rp"
      by (simp add: out rp_after_ServeHTTP)
    then have "redirects (rp_after out) = rds \<and> backends (rp_after out) = bks"
      by (simp add: newReverseProxy_def)
    moreover have "disposition_of out = spec_route rds bks (Host (out_r out))"
      by (simp add: out disposition_ServeHTTP Host_out_r_ServeHTTP)
    ultimately show "redirects (rp_after out) = rds \<and> backends (rp_after out) = bks
       \<and> disposition_of out = spec_route rds bks (Host (out_r out))"
      by simp
  qed
  have hosts: "map (\<lambda>out. Host (out_r out)) (serve ?rp reqs) = map (\<lambda>(T, w, r). Host r) reqs"
    by (simp add: serve_map Host_out_r_ServeHTTP split_def)
  have same: "\<forall>o1 \<in> set (serve ?rp reqs). \<forall>o2 \<in> set (serve ?rp reqs).
         Host (out_r o1) = Host (out_r o2) \<longrightarrow> disposition_of o1 = disposition_of o2"
    using each by simp
  have two: "Host ra = Host rb \<longrightarrow>
        disposition_of (ServeHTTP Ta ?rp wa ra) = disposition_of (ServeHTTP Tb ?rp wb rb)"
    by (simp add: disposition_ServeHTTP)
  from each hosts same two show ?thesis
    by blast
qed

theorem dispatch_repeatable_witness:
  "serve (newReverseProxy main_redirects main_backends)
      [(\<lambda>_::request. [CallWriteHeader 500], new_response, mk_request ''GET'' ''my.domain'' ''/x'' []),
       (\<lambda>_. [CallWriteHeader 500], new_response, mk_request ''GET'' ''www.my.domain'' ''/foo'' ''bar=1''),
       (\<lambda>_. [CallWriteHeader 200], new_response, mk_request ''POST'' ''my.domain'' ''/y'' ''z''),
       (\<lambda>_. [], new_response, mk_request ''GET'' ''www.my.domain'' ''/'' []),
       (\<lambda>_. [], new_response, mk_request ''GET'' ''unknown.example'' ''/'' [])] \<noteq> []
   \<and> map disposition_of (serve (newReverseProxy main_redirects main_backends)
      [(\<lambda>_::request. [CallWriteHeader 500], new_response, mk_request ''GET'' ''my.domain'' ''/x'' []),
       (\<lambda>_. [CallWriteHeader 500], new_response, mk_request ''GET'' ''www.my.domain'' ''/foo'' ''bar=1''),
       (\<lambda>_. [CallWriteHeader 200], new_response, mk_request ''POST'' ''my.domain'' ''/y'' ''z''),
       (\<lambda>_. [], new_response, mk_request ''GET'' ''www.my.domain'' ''/'' []),
       (\<lambda>_. [], new_response, mk_request ''GET'' ''unknown.example'' ''/'' [])])
     = [Redirect ''www.my.domain'', Proxy ''localhost:12345'', Redirect ''www.my.domain'',
        Proxy ''localhost:12345'', Unknown]"
proof -
  let ?reqs = "[(\<lambda>_::request. [CallWriteHeader 500], new_response, mk_request ''GET'' ''my.domain'' ''/x'' []),
       (\<lambda>_. [CallWriteHeader 500], new_response, mk_request ''GET'' ''www.my.domain'' ''/foo'' ''bar=1''),
       (\<lambda>_. [CallWriteHeader 200], new_response, mk_request ''POST'' ''my.domain'' ''/y'' ''z''),
       (\<lambda>_. [], new_response, mk_request ''GET'' ''www.my.domain'' ''/'' []),
       (\<lambda>_. [], new_response, mk_request ''GET'' ''unknown.example'' ''/'' [])]"
  let ?S = "serve (newReverseProxy main_redirects main_backends) ?reqs"
  note inst = dispatch_repeatable [where rds = main_redirects and bks = main_backends
      and reqs = ?reqs and ra = "mk_request ''GET'' ''my.domain'' ''/x'' []"
      and rb = "mk_request ''POST'' ''my.domain'' ''/y'' ''z''"
      and Ta = "\<lambda>_. []" and Tb = "\<lambda>_. []" and wa = new_response and wb = new_response]
  from inst [THEN conjunct1] have each: "\<forall>out \<in> set ?S.
      disposition_of out = spec_route main_redirects main_backends (Host (out_r out))"
    by blast
  note hosts = inst [THEN conjunct2, THEN conjunct1]
  have "map disposition_of ?S
          = map (\<lambda>out. spec_route main_redirects main_backends (Host (out_r out))) ?S"
    using each by (intro map_cong) simp_all
  also have "\<dots> = map (spec_route main_redirects main_backends) (map (\<lambda>out. Host (out_r out)) ?S)"
    by (simp only: map_map comp_def)
  also have "\<dots> = map (spec_route main_redirects main_backends) (map (\<lambda>(T, w, r). Host r) ?reqs)"
    by (rule arg_cong [OF hosts])
  also have "\<dots> = [Redirect ''www.my.domain'', Proxy ''localhost:12345'', Redirect ''www.my.domain'',
        Proxy ''localhost:12345'', Unknown]"
    by (simp add: spec_route_def main_redirects_def main_backends_def Host_mk_request)
  finally have disp: "map disposition_of ?S
      = [Redirect ''www.my.domain'', Proxy ''localhost:12345'', Redirect ''www.my.domain'',
         Proxy ''localhost:12345'', Unknown]" .
  have "?S \<noteq> []"
    by (simp add: Let_def)
  with disp show ?thesis
    by simp
qed

subsection \<open>The plaintext redirector\<close>

lemma hexEscapeNonASCII_ascii:
  "list_all (\<lambda>c. (of_char c :: nat) < 128) s \<Longrightarrow> hexEscapeNonASCII s = s"
  by (induction s) (simp_all add: hexEscapeNonASCII_def)

lemma http_Redirect_Location:
  "Header_Get (http_Redirect w r u code) ''Location'' = hexEscapeNonASCII u"
  by (simp add: http_Redirect_def Let_def Fprintln_def Header_Get_def hdr_response_Write
      hdr_response_WriteHeader Header_Set_def)

lemma http_Redirect_status:
  assumes "wroteHeader w = None"
  shows "wroteHeader (http_Redirect w r u code) = Some code"
  using assms
  by (simp add: http_Redirect_def Let_def Fprintln_def response_Write_def
      response_WriteHeader_def Header_Set_def)

lemma serveToTLS_handler_unfold:
  "serveToTLS_handler w r =
     (http_Redirect w (r\<lparr>URL := (URL r)\<lparr>Scheme := ''https'', URLHost := Host r\<rparr>\<rparr>)
        (url_String ((URL r)\<lparr>Scheme := ''https'', URLHost := Host r\<rparr>)) StatusFound,
      r\<lparr>URL := (URL r)\<lparr>Scheme := ''https'', URLHost := Host r\<rparr>\<rparr>)"
  by (simp add: serveToTLS_handler_def Let_def)

lemma url_String_https_nonascii_example:
  "url_String ((mk_url ''/x'' (''q='' @ [CHR 0xC3, CHR 0xA9]))
       \<lparr>Scheme := ''https'', URLHost := ''www.my.domain''\<rparr>)
     = ''https://www.my.domain/x?q='' @ [CHR 0xC3, CHR 0xA9]"
  by code_simp

lemma hexEscapeNonASCII_example:
  "hexEscapeNonASCII (''https://www.my.domain/x?q='' @ [CHR 0xC3, CHR 0xA9])
     = ''https://www.my.domain/x?q=%c3%a9''"
  by code_simp

text \<open>
  C8, as stated: the \<open>Location\<close> header equals the request's URL with the scheme set
  to \<open>https\<close> and the host set to the request's \<open>Host\<close>. It does not for every
  request: \<^verbatim>\<open>http.Redirect\<close> passes the string through \<^verbatim>\<open>hexEscapeNonASCII\<close>, so for
  a raw query that holds the bytes C3 A9 the header ends in \<^verbatim>\<open>%c3%a9\<close> and differs
  from \<^verbatim>\<open>r.URL.String()\<close>.
\<close>

theorem plaintext_redirect_location_counterexample:
  "wroteHeader new_response = None
   \<and> url_String ((URL (mk_request ''GET'' ''www.my.domain'' ''/x'' (''q='' @ [CHR 0xC3, CHR 0xA9])))
        \<lparr>Scheme := ''https'',
          URLHost := Host (mk_request ''GET'' ''www.my.domain'' ''/x'' (''q='' @ [CHR 0xC3, CHR 0xA9]))\<rparr>)
       = ''https://www.my.domain/x?q='' @ [CHR 0xC3, CHR 0xA9]
   \<and> Header_Get (fst (serveToTLS_handler new_response
        (mk_request ''GET'' ''www.my.domain'' ''/x'' (''q='' @ [CHR 0xC3, CHR 0xA9])))) ''Location''
       = ''https://www.my.domain/x?q=%c3%a9''
   \<and> Header_Get (fst (serveToTLS_handler new_response
        (mk_request ''GET'' ''www.my.domain'' ''/x'' (''q='' @ [CHR 0xC3, CHR 0xA9])))) ''Location''
       \<noteq> url_String ((URL (mk_request ''GET'' ''www.my.domain'' ''/x'' (''q='' @ [CHR 0xC3, CHR 0xA9])))
        \<lparr>Scheme := ''https'',
          URLHost := Host (mk_request ''GET'' ''www.my.domain'' ''/x'' (''q='' @ [CHR 0xC3, CHR 0xA9]))\<rparr>)"
proof -
  have fresh: "wroteHeader new_response = None"
    by (simp add: new_response_def)
  have u: "url_String ((URL (mk_request ''GET'' ''www.my.domain'' ''/x'' (''q='' @ [CHR 0xC3, CHR 0xA9])))
        \<lparr>Scheme := ''https'',
          URLHost := Host (mk_request ''GET'' ''www.my.domain'' ''/x'' (''q='' @ [CHR 0xC3, CHR 0xA9]))\<rparr>)
       = ''https://www.my.domain/x?q='' @ [CHR 0xC3, CHR 0xA9]"
    by (simp only: URL_mk_request Host_mk_request url_String_https_nonascii_example)
  have loc: "Header_Get (fst (serveToTLS_handler new_response
        (mk_request ''GET'' ''www.my.domain'' ''/x'' (''q='' @ [CHR 0xC3, CHR 0xA9])))) ''Location''
       = ''https://www.my.domain/x?q=%c3%a9''"
    by (simp only: serveToTLS_handler_unfold fst_conv http_Redirect_Location u
        hexEscapeNonASCII_example)
  have "''https://www.my.domain/x?q=%c3%a9'' \<noteq> ''https://www.my.domain/x?q='' @ [CHR 0xC3, CHR 0xA9]"
    by simp
  with fresh u loc show ?thesis
    by (simp only: simp_thms)
qed

text \<open>
  C8, amended: on a response whose header is not yet written, the handler of
  \<^verbatim>\<open>serveToTLS\<close> answers with status 302 and a \<open>Location\<close> header that is the string
  of the request's URL with the scheme set to \<open>https\<close> and the host set to the
  request's \<open>Host\<close>, path and query kept, in which every byte from 0x80 on is replaced
  by its percent-encoding; when that string holds ASCII bytes only, the header equals it.
\<close>

theorem plaintext_redirect:
  assumes "wroteHeader w = None"
  shows "wroteHeader (fst (serveToTLS_handler w r)) = Some 302
     \<and> Header_Get (fst (serveToTLS_handler w r)) ''Location''
         = hexEscapeNonASCII (url_String ((URL r)\<lparr>Scheme := ''https'', URLHost := Host r\<rparr>))
     \<and> (list_all (\<lambda>c. (of_char c :: nat) < 128)
           (url_String ((URL r)\<lparr>Scheme := ''https'', URLHost := Host r\<rparr>))
         \<longrightarrow> Header_Get (fst (serveToTLS_handler w r)) ''Location''
               = url_String ((URL r)\<lparr>Scheme := ''https'', URLHost := Host r\<rparr>))
     \<and> Path ((URL r)\<lparr>Scheme := ''https'', URLHost := Host r\<rparr>) = Path (URL r)
     \<and> RawPath ((URL r)\<lparr>Scheme := ''https'', URLHost := Host r\<rparr>) = RawPath (URL r)
     \<and> RawQuery ((URL r)\<lparr>Scheme := ''https'', URLHost := Host r\<rparr>) = RawQuery (URL r)"
  using http_Redirect_status [OF assms, where code = StatusFound]
  by (simp add: serveToTLS_handler_unfold http_Redirect_Location hexEscapeNonASCII_ascii
      StatusFound_def)

lemma url_String_https_example:
  "url_String ((mk_url ''/x'' ''q=1'')\<lparr>Scheme := ''https'', URLHost := ''www.my.domain''\<rparr>)
     = ''https://www.my.domain/x?q=1''"
  by code_simp

theorem plaintext_redirect_witness:
  "wroteHeader new_response = None
   \<and> list_all (\<lambda>c. (of_char c :: nat) < 128) ''https://www.my.domain/x?q=1''
   \<and> wroteHeader (fst (serveToTLS_handler new_response
        (mk_request ''GET'' ''www.my.domain'' ''/x'' ''q=1''))) = Some 302
   \<and> Header_Get (fst (serveToTLS_handler new_response
        (mk_request ''GET'' ''www.my.domain'' ''/x'' ''q=1''))) ''Location''
       = ''https://www.my.domain/x?q=1''
   \<and> Header_Get (fst (serveToTLS_handler new_response
        (mk_request ''GET'' ''www.my.domain'' ''/x'' (''q='' @ [CHR 0xC3, CHR 0xA9])))) ''Location''
       = ''https://www.my.domain/x?q=%c3%a9''"
proof -
  have fresh: "wroteHeader new_response = None"
    by (simp add: new_response_def)
  have ascii: "list_all (\<lambda>c. (of_char c :: nat) < 128) ''https://www.my.domain/x?q=1''"
    by simp
  note a = plaintext_redirect [where w = new_response
      and r = "mk_request ''GET'' ''www.my.domain'' ''/x'' ''q=1''", OF fresh]
  note b = plaintext_redirect [where w = new_response
      and r = "mk_request ''GET'' ''www.my.domain'' ''/x'' (''q='' @ [CHR 0xC3, CHR 0xA9])",
      OF fresh, THEN conjunct2, THEN conjunct1]
  have b': "Header_Get (fst (serveToTLS_handler new_response
        (mk_request ''GET'' ''www.my.domain'' ''/x'' (''q='' @ [CHR 0xC3, CHR 0xA9])))) ''Location''
       = ''https://www.my.domain/x?q=%c3%a9''"
    using b
    by (simp only: URL_mk_request Host_mk_request url_String_https_nonascii_example
        hexEscapeNonASCII_example)
  show ?thesis
    using a fresh ascii b'
    by (simp add: Host_mk_request URL_mk_request url_String_https_example
        hexEscapeNonASCII_ascii [OF ascii])
qed

end
